theory Spec2Isabelle
  imports Main "HOL-Library.AList"
begin

section \<open>publish-lessons: a shallow embedding of \<^verbatim>\<open>programs/mavenseed/publish-lessons.py\<close>\<close>

text \<open>
  The program validates a list of local lesson files, loads a cached snapshot of the remote
  course tree (building it through a paginated listing when the cache file is absent),
  resolves the target course, and sorts the local files into chapters to create, lessons to
  create and lessons to update.

  Conventions of the embedding:
  \<^item> Python \<^verbatim>\<open>str\<close> is \<open>str\<close>, a list of code points. Literals are written \<open>ascii ''...''\<close>.
  \<^item> The Unicode database of the interpreter is not part of the repository. It is a
    parameter \<open>ucd\<close> of every function that maps case or reads \<^verbatim>\<open>\d\<close>. The general theorems
    hold for every database, or for every database with the stated properties; the
    evaluations at explicit inputs use an excerpt of it.
  \<^item> A \<^verbatim>\<open>pathlib.Path\<close> is its anchor and its list of components.
  \<^item> Every \<^verbatim>\<open>raise\<close> and every \<^verbatim>\<open>sys.exit\<close> is a value of \<open>py_error\<close>, returned as \<open>Inl\<close>.
  \<^item> Printing is not modelled.
\<close>

subsection \<open>Strings\<close>

type_synonym str = "nat list"

text \<open>\<^verbatim>\<open>ord\<close> of an ASCII character, and the string of an ASCII literal.\<close>

definition ord_of :: "char \<Rightarrow> nat" where
  "ord_of c = of_char c"

definition ascii :: "string \<Rightarrow> str" where
  "ascii s = map ord_of s"

text \<open>
  What the program reads from the Unicode database: the full lower-case and title-case
  mappings of a code point (each gives one to three code points), the class \<^verbatim>\<open>\d\<close> of the
  decimal digits, and the final-sigma test of the lower-casing, which reads the context of
  an index in a string.
\<close>

record unicode =
  to_lower :: "nat \<Rightarrow> nat list"
  to_title :: "nat \<Rightarrow> nat list"
  is_decimal :: "nat \<Rightarrow> bool"
  final_sigma :: "str \<Rightarrow> nat \<Rightarrow> bool"

text \<open>
  The lower case of the character at index \<open>i\<close> of \<open>s\<close> (\<^verbatim>\<open>lower_ucs4\<close> of the interpreter): the
  capital sigma \<^verbatim>\<open>U+03A3\<close> (931) becomes the final sigma \<^verbatim>\<open>U+03C2\<close> (962) or the small sigma
  \<^verbatim>\<open>U+03C3\<close> (963), by its context; every other character takes its lower-case mapping.
\<close>

definition lower_ucs4 :: "unicode \<Rightarrow> str \<Rightarrow> nat \<Rightarrow> nat list" where
  "lower_ucs4 ucd s i =
     (if s ! i = 931 then [if final_sigma ucd s i then 962 else 963]
      else to_lower ucd (s ! i))"

text \<open>\<^verbatim>\<open>str.lower()\<close>.\<close>

definition lower :: "unicode \<Rightarrow> str \<Rightarrow> str" where
  "lower ucd s = concat (map (lower_ucs4 ucd s) [0..<length s])"

text \<open>
  \<^verbatim>\<open>str.capitalize()\<close>: the first character in title case, all the others in lower case.
\<close>

definition capitalize :: "unicode \<Rightarrow> str \<Rightarrow> str" where
  "capitalize ucd s =
     (if s = [] then []
      else to_title ucd (s ! 0) @ concat (map (lower_ucs4 ucd s) [1..<length s]))"

text \<open>
  An excerpt of the database, for the evaluations: the mappings of the ASCII letters, of
  \<^verbatim>\<open>U+00E9\<close>/\<^verbatim>\<open>U+00C9\<close> (233/201), of \<^verbatim>\<open>U+0149\<close> (329, whose title case is the two code points
  700 and 78) and of the capital sigma; the digits \<^verbatim>\<open>0-9\<close>. Every other code point is mapped
  to itself and the final-sigma test is never true, which is not the database: the excerpt
  is applied only to strings of the code points named here, without a capital sigma.
\<close>

definition unicode_excerpt :: unicode where
  "unicode_excerpt =
     \<lparr>to_lower = (\<lambda>c. if 65 \<le> c \<and> c \<le> 90 then [c + 32]
                      else if c = 201 then [233]
                      else if c = 931 then [963]
                      else [c]),
      to_title = (\<lambda>c. if 97 \<le> c \<and> c \<le> 122 then [c - 32]
                      else if c = 233 then [201]
                      else if c = 329 then [700, 78]
                      else [c]),
      is_decimal = (\<lambda>c. 48 \<le> c \<and> c \<le> 57),
      final_sigma = (\<lambda>s i. False)\<rparr>"

text \<open>A database that maps ASCII as Unicode does.\<close>

definition ascii_exact :: "unicode \<Rightarrow> bool" where
  "ascii_exact ucd =
     (\<forall>c<128. to_lower ucd c = [if 65 \<le> c \<and> c \<le> 90 then c + 32 else c]
        \<and> to_title ucd c = [if 97 \<le> c \<and> c \<le> 122 then c - 32 else c]
        \<and> is_decimal ucd c = (48 \<le> c \<and> c \<le> 57))"

text \<open>
  Lower case is settled: a code point that lower-casing produces is not the capital sigma
  and is its own lower case.
\<close>

definition lower_settled :: "unicode \<Rightarrow> bool" where
  "lower_settled ucd =
     ((\<forall>c d. d \<in> set (to_lower ucd c) \<longrightarrow> d \<noteq> 931 \<and> to_lower ucd d = [d])
      \<and> to_lower ucd 962 = [962] \<and> to_lower ucd 963 = [963])"

text \<open>
  The title case of a code point is settled: its first code point is its own title case, and
  the others are settled lower case. A second \<^verbatim>\<open>capitalize\<close> then leaves it as it is.
\<close>

definition title_settled :: "unicode \<Rightarrow> nat \<Rightarrow> bool" where
  "title_settled ucd c =
     (case to_title ucd c of
        [] \<Rightarrow> False
      | d # ds \<Rightarrow> to_title ucd d = [d] \<and> list_all (\<lambda>e. e \<noteq> 931 \<and> to_lower ucd e = [e]) ds)"

text \<open>\<^verbatim>\<open>str.replace(old, new)\<close> for single characters.\<close>

definition replace_char :: "nat \<Rightarrow> nat \<Rightarrow> str \<Rightarrow> str" where
  "replace_char old new s = map (\<lambda>c. if c = old then new else c) s"

text \<open>\<^verbatim>\<open>str.rfind(c)\<close>: the highest index of \<open>c\<close>, or \<open>-1\<close>.\<close>

fun rfind :: "str \<Rightarrow> nat \<Rightarrow> int" where
  "rfind [] c = - 1"
| "rfind (x # xs) c =
     (let r = rfind xs c in if 0 \<le> r then r + 1 else if x = c then 0 else - 1)"

text \<open>\<^verbatim>\<open>str.startswith\<close>.\<close>

fun startswith :: "str \<Rightarrow> str \<Rightarrow> bool" where
  "startswith s [] = True"
| "startswith [] (p # ps) = False"
| "startswith (c # cs) (p # ps) = (c = p \<and> startswith cs ps)"

subsection \<open>The regular expressions of the program\<close>

text \<open>\<^verbatim>\<open>re.sub(r"[\-._]", " ", s)\<close>: each of the three separators becomes a space.\<close>

definition is_separator :: "nat \<Rightarrow> bool" where
  "is_separator c = (c = ord_of (CHR ''-'') \<or> c = ord_of (CHR ''.'') \<or> c = ord_of (CHR ''_''))"

definition sub_separators :: "str \<Rightarrow> str" where
  "sub_separators s = map (\<lambda>c. if is_separator c then ord_of (CHR '' '') else c) s"

text \<open>The case mappings make no separator out of another character.\<close>

definition keeps_separators :: "unicode \<Rightarrow> bool" where
  "keeps_separators ucd =
     (\<forall>c d. d \<in> set (to_lower ucd c) \<or> d \<in> set (to_title ucd c)
        \<longrightarrow> is_separator d \<longrightarrow> is_separator c)"

text \<open>
  \<^verbatim>\<open>re.sub(r"\d+\.", "", s)\<close>. A match of \<^verbatim>\<open>\d+\.\<close> at the head of a string is a maximal run
  of digits followed by a dot (a digit is never a dot, so backtracking finds nothing else).
  \<open>digits_then_dot\<close> is the rest of that match once the first digit has been read; it returns
  what follows the match.
\<close>

fun digits_then_dot :: "unicode \<Rightarrow> str \<Rightarrow> str option" where
  "digits_then_dot ucd [] = None"
| "digits_then_dot ucd (c # cs) =
     (if is_decimal ucd c then digits_then_dot ucd cs
      else if c = ord_of (CHR ''.'') then Some cs
      else None)"

definition match_ordinal :: "unicode \<Rightarrow> str \<Rightarrow> str option" where
  "match_ordinal ucd s =
     (case s of
        [] \<Rightarrow> None
      | c # cs \<Rightarrow> if is_decimal ucd c then digits_then_dot ucd cs else None)"

text \<open>Scanning from the left: a match is deleted and the scan goes on behind it.\<close>

function sub_ordinal :: "unicode \<Rightarrow> str \<Rightarrow> str" where
  "sub_ordinal ucd [] = []"
| "sub_ordinal ucd (c # cs) =
     (case match_ordinal ucd (c # cs) of
        Some rest \<Rightarrow> sub_ordinal ucd rest
      | None \<Rightarrow> c # sub_ordinal ucd cs)"
  by pat_completeness auto
termination
proof -
  have dl: "length r < length s" if "digits_then_dot ucd s = Some r" for ucd s r
    using that by (induction s) (auto split: if_splits)
  have ml: "length r < length s" if "match_ordinal ucd s = Some r" for ucd s r
    using that by (cases s) (auto simp: match_ordinal_def split: if_splits dest: dl)
  show ?thesis
    by (relation "measure (\<lambda>(ucd, s). length s)") (auto dest: ml)
qed

text \<open>
  \<^verbatim>\<open>re.search(r"<h1>.*</h1>", s)\<close>: somewhere \<^verbatim>\<open><h1>\<close>, then characters other than a newline,
  then \<^verbatim>\<open></h1>\<close>.
\<close>

fun closes_h1 :: "str \<Rightarrow> bool" where
  "closes_h1 [] = False"
| "closes_h1 (c # cs) =
     (startswith (c # cs) (ascii ''</h1>'') \<or> (c \<noteq> ord_of (CHR 0x0A) \<and> closes_h1 cs))"

fun search_h1 :: "str \<Rightarrow> bool" where
  "search_h1 [] = False"
| "search_h1 (c # cs) =
     ((startswith (c # cs) (ascii ''<h1>'') \<and> closes_h1 (drop 4 (c # cs))) \<or> search_h1 cs)"

subsection \<open>Paths\<close>

text \<open>
  A path is its anchor (the root, empty for a relative path) and its components. The
  properties are those of \<^verbatim>\<open>pathlib.PurePath\<close>: \<^verbatim>\<open>name\<close> is the last component (empty when
  there is none), \<^verbatim>\<open>suffix\<close> starts at the last dot of the name unless that dot is the first
  or the last character, \<^verbatim>\<open>stem\<close> is the name without the suffix.
\<close>

datatype Path = Path (anchor: str) (parts: "str list")

definition path_name :: "Path \<Rightarrow> str" where
  "path_name p = (if parts p = [] then [] else last (parts p))"

definition path_parent :: "Path \<Rightarrow> Path" where
  "path_parent p = Path (anchor p) (butlast (parts p))"

definition path_suffix :: "Path \<Rightarrow> str" where
  "path_suffix p =
     (let name = path_name p; i = rfind name (ord_of (CHR ''.''))
      in if 0 < i \<and> i < int (length name) - 1 then drop (nat i) name else [])"

definition path_stem :: "Path \<Rightarrow> str" where
  "path_stem p =
     (let name = path_name p; i = rfind name (ord_of (CHR ''.''))
      in if 0 < i \<and> i < int (length name) - 1 then take (nat i) name else name)"

subsection \<open>Chapter grouping and slug derivation\<close>

text \<open>
  The three assignments to \<^verbatim>\<open>chapter_name\<close> in \<^verbatim>\<open>main\<close>, in the order of the source: the
  separators are replaced first, the ordinal is deleted second, the result is capitalized.
\<close>

definition chapter_name :: "unicode \<Rightarrow> str \<Rightarrow> str" where
  "chapter_name ucd folder = capitalize ucd (sub_ordinal ucd (sub_separators folder))"

definition chapter_name_of :: "unicode \<Rightarrow> Path \<Rightarrow> str" where
  "chapter_name_of ucd filepath = chapter_name ucd (path_name (path_parent filepath))"

text \<open>
  A folder name carries an ordinal when \<^verbatim>\<open>\d+\.\<close> matches somewhere in it: a digit run
  directly followed by a dot.
\<close>

fun has_ordinal :: "unicode \<Rightarrow> str \<Rightarrow> bool" where
  "has_ordinal ucd [] = False"
| "has_ordinal ucd (c # cs) = (match_ordinal ucd (c # cs) \<noteq> None \<or> has_ordinal ucd cs)"

text \<open>\<^verbatim>\<open>filepath.stem.lower().replace(" ", "-")\<close>.\<close>

definition lesson_slug :: "unicode \<Rightarrow> Path \<Rightarrow> str" where
  "lesson_slug ucd filepath = replace_char (ord_of (CHR '' '')) (ord_of (CHR ''-'')) (lower ucd (path_stem filepath))"

subsection \<open>Errors and exit codes\<close>

text \<open>
  \<open>SystemExit n\<close> is \<^verbatim>\<open>sys.exit(n)\<close>; the other constructors are the exceptions the modelled
  statements raise.
\<close>

datatype py_error =
    SystemExit int
  | ValueError
  | FileNotFoundError
  | IsADirectoryError
  | KeyError
  | AttributeError
  | JSONDecodeError

definition ERROR_NO_VALID_LESSON_FILES :: int where
  "ERROR_NO_VALID_LESSON_FILES = 1"

definition ERROR_COURSE_NOT_FOUND :: int where
  "ERROR_COURSE_NOT_FOUND = 2"

definition ERROR_CACHE_FILE_EMPTY :: int where
  "ERROR_CACHE_FILE_EMPTY = 3"

subsection \<open>Validation of the lesson files\<close>

text \<open>
  The file system, as far as \<^verbatim>\<open>validate_lesson_files\<close> reads it: a path is absent, a
  directory, or a regular file with its text. \<^verbatim>\<open>Path.open()\<close> raises on the first two.
\<close>

datatype node = File str | Directory

type_synonym filesystem = "Path \<Rightarrow> node option"

text \<open>
  \<^verbatim>\<open>is_valid_file\<close>: \<^verbatim>\<open>is_valid\<close> is computed first; the file is then opened whatever
  \<^verbatim>\<open>is_valid\<close> says, and the heading is searched in what was read.
\<close>

definition is_valid_file :: "unicode \<Rightarrow> filesystem \<Rightarrow> Path \<Rightarrow> py_error + bool" where
  "is_valid_file ucd fs filepath =
     (let is_valid = (fs filepath \<noteq> None \<and> lower ucd (path_suffix filepath) = ascii ''.html'')
      in case fs filepath of
           None \<Rightarrow> Inl FileNotFoundError
         | Some Directory \<Rightarrow> Inl IsADirectoryError
         | Some (File content) \<Rightarrow> Inr (is_valid \<and> search_h1 content))"

text \<open>The list comprehension: the first exception ends it.\<close>

fun validate_lesson_files :: "unicode \<Rightarrow> filesystem \<Rightarrow> Path list \<Rightarrow> py_error + Path list" where
  "validate_lesson_files ucd fs [] = Inr []"
| "validate_lesson_files ucd fs (filepath # files) =
     (case is_valid_file ucd fs filepath of
        Inl e \<Rightarrow> Inl e
      | Inr ok \<Rightarrow>
          (case validate_lesson_files ucd fs files of
             Inl e \<Rightarrow> Inl e
           | Inr valid \<Rightarrow> Inr (if ok then filepath # valid else valid)))"

subsection \<open>Remote records\<close>

text \<open>
  The dataclasses \<^verbatim>\<open>Course\<close>, \<^verbatim>\<open>Chapter\<close> and \<^verbatim>\<open>Lesson\<close>, with the fields the program reads
  (the status, time stamp and metadata fields are carried along and never read). A cached
  chapter is \<^verbatim>\<open>chapter.to_dict()\<close> with the key \<^verbatim>\<open>"lessons"\<close> added.
\<close>

record Course =
  Course_id :: int
  Course_title :: str
  Course_slug :: str

record Chapter =
  Chapter_id :: int
  Chapter_course_id :: int
  Chapter_title :: str
  Chapter_ordinal :: int

record Lesson =
  Lesson_id :: int
  Lesson_lessonable_id :: int
  Lesson_title :: str
  Lesson_slug :: str
  Lesson_content :: str
  Lesson_ordinal :: int

record CachedChapter = Chapter +
  lessons :: "Lesson list"

datatype NewChapter = NewChapter (NewChapter_title: str)

datatype NewLesson = NewLesson (NewLesson_slug: str) (NewLesson_filepath: Path)

text \<open>The content of \<^verbatim>\<open>.cache/courses.json\<close>: course title to chapters, in the order of the keys.\<close>

type_synonym cached_data = "(str \<times> CachedChapter list) list"

text \<open>
  The text of the cache file is a JSON object, or it is no JSON, as a file of zero bytes or a
  truncated one is: \<^verbatim>\<open>json.load\<close> raises on it.
\<close>

datatype cache_text = Json cached_data | NotJson

subsection \<open>The snapshot cache\<close>

text \<open>
  \<^verbatim>\<open>get_all_lessons\<close>. The remote listing is a function from the page number to the page.
  The state of the loop is the page number and what has happened so far: the pages
  requested and the pages yielded. The loop has no bound, so it is a partial function:
  \<open>None\<close> is the loop that never ends.
\<close>

record fetch =
  requested :: "nat list"
  yielded :: "Lesson list list"

partial_function (option) get_all_lessons_loop ::
    "(nat \<Rightarrow> Lesson list) \<Rightarrow> nat \<Rightarrow> fetch \<Rightarrow> fetch option" where
  "get_all_lessons_loop api page st =
     (if api page = []
      then Some (st\<lparr>requested := requested st @ [page]\<rparr>)
      else get_all_lessons_loop api (page + 1)
             (st\<lparr>requested := requested st @ [page], yielded := yielded st @ [api page]\<rparr>))"

declare get_all_lessons_loop.simps [code]

definition get_all_lessons :: "(nat \<Rightarrow> Lesson list) \<Rightarrow> fetch option" where
  "get_all_lessons api = get_all_lessons_loop api 0 \<lparr>requested = [], yielded = []\<rparr>"

text \<open>
  The world outside the program: the file system of the lesson files, the cache file
  (\<open>None\<close> when it does not exist), and the answers of the remote API.
\<close>

record World =
  files :: filesystem
  cache_file :: "cache_text option"
  api_courses :: "Course list"
  api_course_chapters :: "int \<Rightarrow> Chapter list"
  api_lessons :: "nat \<Rightarrow> Lesson list"

text \<open>\<^verbatim>\<open>Lesson.to_dict\<close> leaves the content out; reading the cache back supplies \<^verbatim>\<open>content=""\<close>.\<close>

definition to_dict :: "Lesson \<Rightarrow> Lesson" where
  "to_dict lesson = lesson\<lparr>Lesson_content := []\<rparr>"

definition chapter_as_dict :: "Lesson list \<Rightarrow> Chapter \<Rightarrow> CachedChapter" where
  "chapter_as_dict all_lessons chapter =
     Chapter.extend chapter
       (CachedChapter.fields
          (map to_dict (filter (\<lambda>lesson. Lesson_lessonable_id lesson = Chapter_id chapter) all_lessons)))"

text \<open>
  The loop over the courses of \<^verbatim>\<open>cache_all_courses\<close>: \<^verbatim>\<open>output[course.title]\<close> is reset to the
  empty list and receives the chapters of the course one by one.
\<close>

fun cache_courses :: "World \<Rightarrow> Lesson list \<Rightarrow> Course list \<Rightarrow> cached_data \<Rightarrow> cached_data" where
  "cache_courses w all_lessons [] output = output"
| "cache_courses w all_lessons (course # courses) output =
     cache_courses w all_lessons courses
       (AList.update (Course_title course)
          (map (chapter_as_dict all_lessons) (api_course_chapters w (Course_id course)))
          (AList.update (Course_title course) [] output))"

definition cache_all_courses :: "World \<Rightarrow> cached_data option" where
  "cache_all_courses w =
     (case get_all_lessons (api_lessons w) of
        None \<Rightarrow> None
      | Some f \<Rightarrow> Some (cache_courses w (concat (yielded f)) (api_courses w) []))"

subsection \<open>Course resolution\<close>

text \<open>
  \<^verbatim>\<open>next(course for course in courses if args.course in (course.title, course.slug))\<close>;
  \<open>None\<close> is \<^verbatim>\<open>StopIteration\<close>.
\<close>

fun find_course :: "str \<Rightarrow> Course list \<Rightarrow> Course option" where
  "find_course ident [] = None"
| "find_course ident (course # courses) =
     (if ident = Course_title course \<or> ident = Course_slug course then Some course
      else find_course ident courses)"

subsection \<open>Reconciliation\<close>

record ReconciliationResult =
  chapters_to_create :: "NewChapter list"
  lessons_to_create :: "NewLesson list"
  lessons_to_update :: "(str \<times> int) list"

text \<open>\<^verbatim>\<open>lessons_in_course\<close>: every cached lesson of the course, as \<^verbatim>\<open>Lesson(**lessons, content="")\<close>.\<close>

definition lessons_in_course_of :: "CachedChapter list \<Rightarrow> Lesson list" where
  "lessons_in_course_of course_chapters =
     concat (map (\<lambda>chapter. map (\<lambda>l. l\<lparr>Lesson_content := []\<rparr>) (lessons chapter)) course_chapters)"

text \<open>
  \<^verbatim>\<open>lessons_map\<close>: chapter name to the (slug, path) pairs of its files, a dictionary in
  insertion order. One round of the loop over \<^verbatim>\<open>args.lesson_files\<close>: the entry of the chapter
  name is created when \<^verbatim>\<open>lessons_map.get(chapter_name)\<close> is falsy, then the pair is appended
  to it.
\<close>

type_synonym lessons_map = "(str \<times> (str \<times> Path) list) list"

definition add_lesson_file :: "unicode \<Rightarrow> lessons_map \<Rightarrow> Path \<Rightarrow> lessons_map" where
  "add_lesson_file ucd m filepath =
     (let cname = chapter_name_of ucd filepath;
          m1 = (case map_of m cname of
                  None \<Rightarrow> AList.update cname [] m
                | Some entries \<Rightarrow> if entries = [] then AList.update cname [] m else m);
          entries = (case map_of m1 cname of None \<Rightarrow> [] | Some es \<Rightarrow> es)
      in AList.update cname (entries @ [(lesson_slug ucd filepath, filepath)]) m1)"

definition build_lessons_map :: "unicode \<Rightarrow> Path list \<Rightarrow> lessons_map" where
  "build_lessons_map ucd lesson_files = foldl (add_lesson_file ucd) [] lesson_files"

text \<open>
  The inner loop of the reconciliation, over the files of one chapter name. A slug with no
  remote lesson is appended to \<^verbatim>\<open>lessons_to_create\<close>. For a slug with a remote lesson the
  source evaluates \<^verbatim>\<open>lesson.get("id")\<close> on a \<^verbatim>\<open>Lesson\<close> dataclass instance, which has no
  attribute \<^verbatim>\<open>get\<close>: the statement raises \<^verbatim>\<open>AttributeError\<close> before anything is appended
  to \<^verbatim>\<open>lessons_to_update\<close>.
\<close>

fun classify_lessons ::
    "Lesson list \<Rightarrow> (str \<times> Path) list \<Rightarrow> ReconciliationResult
      \<Rightarrow> py_error + ReconciliationResult" where
  "classify_lessons lessons_in_course [] r = Inr r"
| "classify_lessons lessons_in_course ((slug, filepath) # entries) r =
     (case find (\<lambda>l. Lesson_slug l = slug) lessons_in_course of
        None \<Rightarrow>
          classify_lessons lessons_in_course entries
            (r\<lparr>lessons_to_create := lessons_to_create r @ [NewLesson slug filepath]\<rparr>)
      | Some lesson \<Rightarrow> Inl AttributeError)"

text \<open>The outer loop, over the chapter names of \<^verbatim>\<open>lessons_map\<close> in insertion order.\<close>

fun reconcile_chapters ::
    "CachedChapter list \<Rightarrow> Lesson list \<Rightarrow> lessons_map \<Rightarrow> ReconciliationResult
      \<Rightarrow> py_error + ReconciliationResult" where
  "reconcile_chapters course_chapters lessons_in_course [] r = Inr r"
| "reconcile_chapters course_chapters lessons_in_course ((cname, entries) # rest) r =
     (let r1 = (case find (\<lambda>c. Chapter_title c = cname) course_chapters of
                  None \<Rightarrow> r\<lparr>chapters_to_create := chapters_to_create r @ [NewChapter cname]\<rparr>
                | Some matching_chapter \<Rightarrow> r)
      in case classify_lessons lessons_in_course entries r1 of
           Inl e \<Rightarrow> Inl e
         | Inr r2 \<Rightarrow> reconcile_chapters course_chapters lessons_in_course rest r2)"

definition reconcile :: "unicode \<Rightarrow> CachedChapter list \<Rightarrow> Path list \<Rightarrow> py_error + ReconciliationResult" where
  "reconcile ucd course_chapters lesson_files =
     reconcile_chapters course_chapters (lessons_in_course_of course_chapters)
       (build_lessons_map ucd lesson_files)
       \<lparr>chapters_to_create = [], lessons_to_create = [], lessons_to_update = []\<rparr>"

subsection \<open>The program\<close>

record Args =
  course :: str
  lesson_files :: "Path list"
  overwrite :: bool
  mavenseed_url :: str
  email :: str
  password :: str
  list_courses :: bool

text \<open>
  The cache file is built when it does not exist, and read with \<^verbatim>\<open>json.load\<close>. A file the
  program has just written is a JSON object.
\<close>

definition load_cache :: "World \<Rightarrow> (py_error + cached_data) option" where
  "load_cache w =
     (case cache_file w of
        None \<Rightarrow> map_option Inr (cache_all_courses w)
      | Some NotJson \<Rightarrow> Some (Inl JSONDecodeError)
      | Some (Json cached) \<Rightarrow> Some (Inr cached))"

text \<open>
  \<^verbatim>\<open>main\<close>, from the parsed arguments on, in two stages. The first stage runs to the
  assignment of \<^verbatim>\<open>course_chapters\<close>: the check of the URL, the validation, the cache, the
  listing mode and the resolution of the course. \<open>None\<close> is a run that never leaves the
  download of the lessons. The login is a network call whose token only travels to the other
  calls; it is not modelled.
\<close>

definition resolve_course_chapters ::
    "unicode \<Rightarrow> Args \<Rightarrow> World \<Rightarrow> (py_error + CachedChapter list) option" where
  "resolve_course_chapters ucd args w =
     (if mavenseed_url args = [] then Some (Inl ValueError)
      else
        (case validate_lesson_files ucd (files w) (lesson_files args) of
           Inl e \<Rightarrow> Some (Inl e)
         | Inr valid_files \<Rightarrow>
             (if length valid_files = 0
              then Some (Inl (SystemExit ERROR_NO_VALID_LESSON_FILES))
              else
                (case load_cache w of
                   None \<Rightarrow> None
                 | Some (Inl e) \<Rightarrow> Some (Inl e)
                 | Some (Inr cached) \<Rightarrow>
                     Some
                       (if cached = [] then Inl (SystemExit ERROR_CACHE_FILE_EMPTY)
                        else if list_courses args then Inl (SystemExit 0)
                        else
                          (case find_course (course args) (api_courses w) of
                             None \<Rightarrow> Inl (SystemExit ERROR_COURSE_NOT_FOUND)
                           | Some course_to_update \<Rightarrow>
                               (case map_of cached (Course_title course_to_update) of
                                  None \<Rightarrow> Inl KeyError
                                | Some course_chapters \<Rightarrow> Inr course_chapters)))))))"

text \<open>
  The second stage is the reconciliation, over \<^verbatim>\<open>args.lesson_files\<close>. The source keeps the
  three lists in local variables; the model returns them.
\<close>

definition main :: "unicode \<Rightarrow> Args \<Rightarrow> World \<Rightarrow> (py_error + ReconciliationResult) option" where
  "main ucd args w =
     (case resolve_course_chapters ucd args w of
        None \<Rightarrow> None
      | Some (Inl e) \<Rightarrow> Some (Inl e)
      | Some (Inr course_chapters) \<Rightarrow> Some (reconcile ucd course_chapters (lesson_files args)))"

section \<open>Properties\<close>

subsection \<open>Characters and strings\<close>

lemma is_separator_code: "is_separator c \<longleftrightarrow> c = 45 \<or> c = 46 \<or> c = 95"
  by (simp add: is_separator_def ord_of_def)

lemma sub_separators_clean: "\<not> list_ex is_separator (sub_separators s)"
  by (auto simp add: sub_separators_def list_ex_iff is_separator_code ord_of_def)

lemma sub_separators_id: "\<not> list_ex is_separator s \<Longrightarrow> sub_separators s = s"
  by (induction s) (simp_all add: sub_separators_def)

lemma sub_separators_ascii:
  "list_all (\<lambda>c. c < 128) s \<Longrightarrow> list_all (\<lambda>c. c < 128) (sub_separators s)"
  by (induction s) (simp_all add: sub_separators_def ord_of_def)

text \<open>The characters behind the first one, read by index.\<close>

lemma map_nth_tl: "map ((!) s) [1..<length s] = tl s"
proof (cases s)
  case Nil
  then show ?thesis by simp
next
  case (Cons c cs)
  have "[1..<length (c # cs)] = map Suc [0..<length cs]"
    by (simp add: map_Suc_upt del: upt_Suc)
  then have "map ((!) (c # cs)) [1..<length (c # cs)] = map ((!) cs) [0..<length cs]"
    by (simp del: upt_Suc)
  with Cons show ?thesis by (simp add: map_nth del: upt_Suc)
qed

lemma nth_in_tl: "1 \<le> i \<Longrightarrow> i < length s \<Longrightarrow> s ! i \<in> set (tl s)"
  by (cases s) (auto simp: nth_Cons split: nat.splits)

text \<open>Lower-casing leaves characters alone that are their own lower case.\<close>

lemma lower_rest_fixed:
  assumes "\<forall>e\<in>set (tl s). e \<noteq> 931 \<and> to_lower ucd e = [e]"
  shows "concat (map (lower_ucs4 ucd s) [1..<length s]) = tl s"
proof -
  have "map (lower_ucs4 ucd s) [1..<length s] = map (\<lambda>i. [s ! i]) [1..<length s]"
  proof (rule map_cong[OF refl])
    fix i assume "i \<in> set [1..<length s]"
    then have "s ! i \<in> set (tl s)" by (simp add: nth_in_tl)
    with assms show "lower_ucs4 ucd s i = [s ! i]" by (simp add: lower_ucs4_def)
  qed
  then have "concat (map (lower_ucs4 ucd s) [1..<length s])
               = concat (map (\<lambda>i. [s ! i]) [1..<length s])"
    by (simp only:)
  also have "\<dots> = map ((!) s) [1..<length s]"
    by (rule concat_map_singleton)
  finally show ?thesis by (simp only: map_nth_tl)
qed

text \<open>What lower-casing produces, under the two properties of the database.\<close>

lemma lower_ucs4_settled:
  "lower_settled ucd \<Longrightarrow> d \<in> set (lower_ucs4 ucd s i) \<Longrightarrow> d \<noteq> 931 \<and> to_lower ucd d = [d]"
  by (auto simp: lower_settled_def lower_ucs4_def split: if_splits)

lemma lower_ucs4_separator:
  "keeps_separators ucd \<Longrightarrow> d \<in> set (lower_ucs4 ucd s i) \<Longrightarrow> is_separator d \<Longrightarrow>
   is_separator (s ! i)"
  by (auto simp: keeps_separators_def lower_ucs4_def is_separator_code split: if_splits)


text \<open>
  A string without separators, capitalized once, is left as it is by the normalization,
  provided the title case of its first character is settled.
\<close>

lemma capitalize_Cons:
  "capitalize ucd (c # cs)
     = to_title ucd c @ concat (map (lower_ucs4 ucd (c # cs)) [1..<length (c # cs)])"
  by (simp add: capitalize_def)

lemma capitalize_settled:
  assumes ls: "lower_settled ucd" and ts: "title_settled ucd c"
  shows "capitalize ucd (capitalize ucd (c # cs)) = capitalize ucd (c # cs)"
proof -
  let ?L = "concat (map (lower_ucs4 ucd (c # cs)) [1..<length (c # cs)])"
  from ts obtain d ds where t: "to_title ucd c = d # ds" and d: "to_title ucd d = [d]"
    and ds: "\<forall>e\<in>set ds. e \<noteq> 931 \<and> to_lower ucd e = [e]"
    by (auto simp: title_settled_def list_all_iff split: list.splits)
  have L: "\<forall>e\<in>set ?L. e \<noteq> 931 \<and> to_lower ucd e = [e]"
    using lower_ucs4_settled[OF ls] by auto
  have s1: "capitalize ucd (c # cs) = d # (ds @ ?L)"
    by (simp only: capitalize_Cons t append_Cons)
  have "\<forall>e\<in>set (tl (d # (ds @ ?L))). e \<noteq> 931 \<and> to_lower ucd e = [e]"
    using ds L by auto
  from lower_rest_fixed[OF this]
  have "capitalize ucd (d # (ds @ ?L)) = d # (ds @ ?L)"
    by (simp only: capitalize_Cons d list.sel append_Cons append_Nil)
  then show ?thesis by (simp only: s1)
qed

lemma capitalize_no_separator:
  assumes ks: "keeps_separators ucd" and clean: "\<not> list_ex is_separator s"
  shows "\<not> list_ex is_separator (capitalize ucd s)"
proof (cases s)
  case Nil
  then show ?thesis by (simp add: capitalize_def)
next
  case (Cons c cs)
  have c: "\<not> is_separator c" using clean Cons by simp
  have title: "\<not> is_separator d" if "d \<in> set (to_title ucd c)" for d
    using ks c that by (auto simp: keeps_separators_def)
  have rest: "\<not> is_separator d"
    if "d \<in> set (concat (map (lower_ucs4 ucd s) [1..<length s]))" for d
  proof -
    from that obtain i where i: "i < length s" and d: "d \<in> set (lower_ucs4 ucd s i)"
      by auto
    from i clean have "\<not> is_separator (s ! i)" by (auto simp: list_ex_iff)
    with lower_ucs4_separator[OF ks d] show ?thesis by blast
  qed
  show ?thesis
    unfolding Cons capitalize_Cons using title rest[unfolded Cons]
    by (auto simp: list_ex_iff)
qed


text \<open>On an ASCII string, a database that is exact on ASCII maps case as the excerpt does.\<close>

lemma ascii_exact_excerpt: "ascii_exact unicode_excerpt"
  by (simp add: ascii_exact_def unicode_excerpt_def)

lemma lower_ucs4_ascii:
  assumes "ascii_exact ucd" and "s ! i < 128"
  shows "lower_ucs4 ucd s i = lower_ucs4 unicode_excerpt s i"
proof -
  have "s ! i \<noteq> 931" using assms(2) by simp
  moreover have "to_lower ucd (s ! i) = to_lower unicode_excerpt (s ! i)"
    using assms ascii_exact_excerpt by (simp add: ascii_exact_def)
  ultimately show ?thesis by (simp add: lower_ucs4_def)
qed

lemma lower_ucs4_ascii_map:
  assumes "ascii_exact ucd" and "list_all (\<lambda>c. c < 128) s"
  shows "map (lower_ucs4 ucd s) [k..<length s] = map (lower_ucs4 unicode_excerpt s) [k..<length s]"
proof (rule map_cong[OF refl])
  fix i assume "i \<in> set [k..<length s]"
  then have "s ! i < 128" using assms(2) by (simp add: list_all_length)
  with assms(1) show "lower_ucs4 ucd s i = lower_ucs4 unicode_excerpt s i"
    by (rule lower_ucs4_ascii)
qed

lemma lower_ascii:
  "ascii_exact ucd \<Longrightarrow> list_all (\<lambda>c. c < 128) s \<Longrightarrow> lower ucd s = lower unicode_excerpt s"
  by (simp only: lower_def lower_ucs4_ascii_map)

lemma capitalize_ascii:
  assumes "ascii_exact ucd" and "list_all (\<lambda>c. c < 128) s"
  shows "capitalize ucd s = capitalize unicode_excerpt s"
proof (cases "s = []")
  case True
  then show ?thesis by (simp add: capitalize_def)
next
  case False
  then have "s ! 0 < 128" using assms(2) by (simp add: list_all_length)
  then have "to_title ucd (s ! 0) = to_title unicode_excerpt (s ! 0)"
    using assms(1) ascii_exact_excerpt by (simp add: ascii_exact_def)
  then show ?thesis
    by (simp only: capitalize_def lower_ucs4_ascii_map[OF assms])
qed

subsection \<open>The ordinal pattern\<close>

lemma digits_then_dot_has_dot: "digits_then_dot ucd s = Some r \<Longrightarrow> ord_of (CHR ''.'') \<in> set s"
  by (induction s) (auto split: if_splits)

lemma match_ordinal_has_dot: "match_ordinal ucd s = Some r \<Longrightarrow> ord_of (CHR ''.'') \<in> set s"
  by (cases s) (auto simp: match_ordinal_def split: if_splits dest: digits_then_dot_has_dot)

text \<open>Nothing is deleted from a string without a dot.\<close>

lemma sub_ordinal_id: "ord_of (CHR ''.'') \<notin> set s \<Longrightarrow> sub_ordinal ucd s = s"
proof (induction s)
  case Nil
  then show ?case by simp
next
  case (Cons c cs)
  then have "match_ordinal ucd (c # cs) = None"
    using match_ordinal_has_dot[of ucd "c # cs"] by (cases "match_ordinal ucd (c # cs)") auto
  with Cons show ?case by simp
qed

lemma no_separator_no_dot: "\<not> list_ex is_separator s \<Longrightarrow> ord_of (CHR ''.'') \<notin> set s"
  by (auto simp: list_ex_iff is_separator_def)

text \<open>
  The dots are gone when the ordinal pattern is applied, so the second substitution of
  \<open>chapter_name\<close> finds nothing to delete.
\<close>

lemma chapter_name_eq: "chapter_name ucd folder = capitalize ucd (sub_separators folder)"
  by (simp add: chapter_name_def sub_ordinal_id no_separator_no_dot sub_separators_clean)

lemma chapter_name_ascii:
  "ascii_exact ucd \<Longrightarrow> list_all (\<lambda>c. c < 128) folder \<Longrightarrow>
   chapter_name ucd folder = chapter_name unicode_excerpt folder"
  by (simp only: chapter_name_eq capitalize_ascii sub_separators_ascii)

subsection \<open>Chapter grouping\<close>

text \<open>
  Claim C9, as stated, fails: \<^verbatim>\<open>str.capitalize\<close> puts the first character in title case and
  the others in lower case, and the title case of \<^verbatim>\<open>U+0149\<close> is the two code points
  \<^verbatim>\<open>U+02BC U+004E\<close>. For the folder name \<^verbatim>\<open>U+0149 x\<close> the first normalization gives
  \<^verbatim>\<open>U+02BC N x\<close> and the second one, lower-casing the \<^verbatim>\<open>N\<close>, gives \<^verbatim>\<open>U+02BC n x\<close>.
\<close>

theorem chapter_name_not_idempotent_u0149:
  "chapter_name unicode_excerpt [329, 120] = [700, 78, 120]
   \<and> chapter_name unicode_excerpt (chapter_name unicode_excerpt [329, 120]) = [700, 110, 120]
   \<and> chapter_name unicode_excerpt (chapter_name unicode_excerpt [329, 120])
       \<noteq> chapter_name unicode_excerpt [329, 120]"
  by code_simp

text \<open>
  Claim C9, amended. The normalization is idempotent on every folder name whose first
  character, once the separators are replaced, has a settled title case: applied to its own
  result it returns that result. This holds for every database in which lower case is
  settled and the case mappings make no separator; the folder name may hold any code
  points. In the Unicode database the title case of every code point but \<^verbatim>\<open>U+0149\<close> is
  settled.
\<close>

theorem chapter_name_idempotent:
  "lower_settled ucd \<and> keeps_separators ucd
   \<and> (case sub_separators folder of [] \<Rightarrow> True | c # cs \<Rightarrow> title_settled ucd c)
   \<longrightarrow> chapter_name ucd (chapter_name ucd folder) = chapter_name ucd folder"
proof
  assume a: "lower_settled ucd \<and> keeps_separators ucd
   \<and> (case sub_separators folder of [] \<Rightarrow> True | c # cs \<Rightarrow> title_settled ucd c)"
  let ?t = "sub_separators folder"
  have clean: "\<not> list_ex is_separator (capitalize ucd ?t)"
    using a by (intro capitalize_no_separator sub_separators_clean) simp
  have 1: "chapter_name ucd (capitalize ucd ?t) = capitalize ucd (capitalize ucd ?t)"
    using clean by (simp add: chapter_name_eq sub_separators_id)
  have 2: "capitalize ucd (capitalize ucd ?t) = capitalize ucd ?t"
  proof (cases ?t)
    case Nil
    then show ?thesis by (simp add: capitalize_def)
  next
    case (Cons c cs)
    with a have "title_settled ucd c" by simp
    with a show ?thesis unfolding Cons by (intro capitalize_settled) simp_all
  qed
  from 1 2 show "chapter_name ucd (chapter_name ucd folder) = chapter_name ucd folder"
    by (simp add: chapter_name_eq)
qed

lemma lower_settled_excerpt: "lower_settled unicode_excerpt"
  by (auto simp add: lower_settled_def unicode_excerpt_def split: if_splits)

lemma keeps_separators_excerpt: "keeps_separators unicode_excerpt"
  by (auto simp add: keeps_separators_def unicode_excerpt_def is_separator_code split: if_splits)

theorem chapter_name_idempotent_witness:
  "lower_settled unicode_excerpt \<and> keeps_separators unicode_excerpt
   \<and> title_settled unicode_excerpt 233
   \<and> chapter_name unicode_excerpt (233 # ascii ''COLE-1.x'') = 201 # ascii ''cole 1 x''
   \<and> chapter_name unicode_excerpt (201 # ascii ''cole 1 x'') = 201 # ascii ''cole 1 x''"
proof -
  have t: "title_settled unicode_excerpt 233"
    by (simp add: title_settled_def unicode_excerpt_def)
  have s: "sub_separators (233 # ascii ''COLE-1.x'') = 233 # ascii ''COLE 1 x''"
    by code_simp
  have n: "chapter_name unicode_excerpt (233 # ascii ''COLE-1.x'') = 201 # ascii ''cole 1 x''"
    by code_simp
  from chapter_name_idempotent[of unicode_excerpt "233 # ascii ''COLE-1.x''"]
    lower_settled_excerpt keeps_separators_excerpt t s n
  show ?thesis by simp
qed

subsection \<open>Slug derivation\<close>

text \<open>
  Claim C8. The slug of a file is its stem, lower-cased, with every space replaced by a
  hyphen. It holds no space, it is the same for two files with the same stem, and neither the
  anchor nor the folders of the path enter it. This holds for every database.
\<close>

theorem slug_depends_only_on_stem:
  "lesson_slug ucd p = replace_char (ord_of (CHR '' '')) (ord_of (CHR ''-'')) (lower ucd (path_stem p))
   \<and> ord_of (CHR '' '') \<notin> set (lesson_slug ucd p)
   \<and> (path_stem p = path_stem q \<longrightarrow> lesson_slug ucd p = lesson_slug ucd q)
   \<and> lesson_slug ucd (Path a (ds @ [n])) = lesson_slug ucd (Path a' (ds' @ [n]))"
  by (auto simp add: lesson_slug_def replace_char_def path_stem_def path_name_def ord_of_def)

theorem slug_depends_only_on_stem_witness:
  "path_stem (Path [] [ascii ''01-basics'', ascii ''Intro To X.html''])
     = path_stem (Path (ascii ''/'') [ascii ''srv'', ascii ''02.more'', ascii ''Intro To X.htm''])
   \<and> lesson_slug unicode_excerpt (Path [] [ascii ''01-basics'', ascii ''Intro To X.html'']) = ascii ''intro-to-x''
   \<and> lesson_slug unicode_excerpt (Path (ascii ''/'') [ascii ''srv'', ascii ''02.more'', ascii ''Intro To X.htm'']) = ascii ''intro-to-x''"
proof -
  have stems: "path_stem (Path [] [ascii ''01-basics'', ascii ''Intro To X.html''])
                 = path_stem (Path (ascii ''/'') [ascii ''srv'', ascii ''02.more'', ascii ''Intro To X.htm''])"
    by code_simp
  have slug: "lesson_slug unicode_excerpt (Path [] [ascii ''01-basics'', ascii ''Intro To X.html'']) = ascii ''intro-to-x''"
    by code_simp
  have "lesson_slug unicode_excerpt (Path [] [ascii ''01-basics'', ascii ''Intro To X.html''])
          = lesson_slug unicode_excerpt (Path (ascii ''/'') [ascii ''srv'', ascii ''02.more'', ascii ''Intro To X.htm''])"
    using slug_depends_only_on_stem[of unicode_excerpt
        "Path [] [ascii ''01-basics'', ascii ''Intro To X.html'']"
        "Path (ascii ''/'') [ascii ''srv'', ascii ''02.more'', ascii ''Intro To X.htm'']"
        "[]" "[]" "[]" "[]" "[]"] stems
    by blast
  with stems slug show ?thesis by simp
qed

subsection \<open>Validation\<close>

text \<open>
  When every candidate is a regular file, the result is the sublist of the candidates with
  the suffix \<^verbatim>\<open>.html\<close> in any case and a heading on one line.
\<close>

lemma validate_regular_files:
  "list_all (\<lambda>p. \<exists>content. fs p = Some (File content)) ps \<Longrightarrow>
   validate_lesson_files ucd fs ps =
     Inr (filter (\<lambda>p. lower ucd (path_suffix p) = ascii ''.html''
                     \<and> (case fs p of Some (File content) \<Rightarrow> search_h1 content | _ \<Rightarrow> False)) ps)"
  by (induction ps) (auto simp: is_valid_file_def)

text \<open>The validation raises exactly when some candidate is not a regular file.\<close>

lemma validate_raises_iff:
  "(\<exists>e. validate_lesson_files ucd fs ps = Inl e)
     \<longleftrightarrow> (\<exists>p\<in>set ps. \<forall>content. fs p \<noteq> Some (File content))"
  by (induction ps)
     (auto simp: is_valid_file_def split: option.splits node.splits sum.splits)

text \<open>
  Claim C4. The claim says that a candidate that does not exist is left out without an
  error. The source opens every candidate, also one for which \<^verbatim>\<open>exists()\<close> was false: on
  the single candidate \<^verbatim>\<open>lessons/missing.html\<close>, in a file system without it, the validation
  raises \<^verbatim>\<open>FileNotFoundError\<close>.
\<close>

theorem validate_missing_file_raises:
  "validate_lesson_files ucd (\<lambda>p. None) [Path [] [ascii ''lessons'', ascii ''missing.html'']]
     = Inl FileNotFoundError"
  by (simp add: is_valid_file_def)

subsection \<open>Pagination\<close>

lemma loop_terminates:
  "api (p + d) = [] \<Longrightarrow> (\<forall>k<d. api (p + k) \<noteq> []) \<Longrightarrow>
   get_all_lessons_loop api p st =
     Some (st\<lparr>requested := requested st @ [p..<Suc (p + d)],
              yielded := yielded st @ map api [p..<p + d]\<rparr>)"
proof (induction d arbitrary: p st)
  case 0
  then show ?case
    by (subst get_all_lessons_loop.simps) simp
next
  case (Suc d)
  have ne: "api p \<noteq> []" using Suc.prems(2)[rule_format, of 0] by simp
  have a: "api (Suc p + d) = []" using Suc.prems(1) by simp
  have b: "\<forall>k<d. api (Suc p + k) \<noteq> []"
  proof (intro allI impI)
    fix k assume "k < d"
    then show "api (Suc p + k) \<noteq> []" using Suc.prems(2)[rule_format, of "Suc k"] by simp
  qed
  have e1: "[p..<Suc (p + Suc d)] = p # [Suc p..<Suc (Suc p + d)]"
    by (subst upt_rec) (simp del: upt_Suc)
  have e2: "[p..<p + Suc d] = p # [Suc p..<Suc p + d]"
    by (subst upt_rec) (simp del: upt_Suc)
  have "get_all_lessons_loop api p st =
        get_all_lessons_loop api (Suc p)
          (st\<lparr>requested := requested st @ [p], yielded := yielded st @ [api p]\<rparr>)"
    using ne by (subst get_all_lessons_loop.simps) simp
  also have "\<dots> = Some (st\<lparr>requested := requested st @ [p..<Suc (p + Suc d)],
                          yielded := yielded st @ map api [p..<p + Suc d]\<rparr>)"
    unfolding e1 e2 using Suc.IH[OF a b] by simp
  finally show ?case .
qed

lemma loop_returns_empty_page:
  assumes "get_all_lessons_loop api p st = Some r"
  shows "\<exists>n\<ge>p. api n = []"
proof (rule get_all_lessons_loop.raw_induct
    [where P = "\<lambda>api p st r. \<exists>n\<ge>p. api n = []" and api = api and page = p and st = st and y = r])
  fix f a pg s y
  assume IH: "\<And>a' pg' s' y'. f a' pg' s' = Some y' \<Longrightarrow> \<exists>n\<ge>pg'. a' n = []"
    and eq: "(if a pg = [] then Some (s\<lparr>requested := requested s @ [pg]\<rparr>)
              else f a (pg + 1)
                     (s\<lparr>requested := requested s @ [pg], yielded := yielded s @ [a pg]\<rparr>)) = Some y"
  show "\<exists>n\<ge>pg. a n = []"
  proof (cases "a pg = []")
    case True
    then show ?thesis by auto
  next
    case False
    with eq have "f a (pg + 1)
        (s\<lparr>requested := requested s @ [pg], yielded := yielded s @ [a pg]\<rparr>) = Some y"
      by simp
    from IH[OF this] obtain n where "pg + 1 \<le> n" "a n = []" by blast
    then show ?thesis by (auto intro: exI[of _ n])
  qed
next
  show "get_all_lessons_loop api p st = Some r" by fact
qed

lemma loop_diverges: "(\<forall>k. api k \<noteq> []) \<Longrightarrow> get_all_lessons_loop api p st = None"
  using loop_returns_empty_page[of api p st] by (cases "get_all_lessons_loop api p st") auto

lemma get_all_lessons_first_empty:
  "api n = [] \<Longrightarrow> (\<forall>k<n. api k \<noteq> []) \<Longrightarrow>
   get_all_lessons api = Some \<lparr>requested = [0..<Suc n], yielded = map api [0..<n]\<rparr>"
  using loop_terminates[of api 0 n "\<lparr>requested = [], yielded = []\<rparr>"]
  by (simp add: get_all_lessons_def)

lemma get_all_lessons_returns_iff: "(get_all_lessons api \<noteq> None) = (\<exists>n. api n = [])"
proof
  assume "get_all_lessons api \<noteq> None"
  then obtain r where "get_all_lessons_loop api 0 \<lparr>requested = [], yielded = []\<rparr> = Some r"
    by (auto simp: get_all_lessons_def)
  from loop_returns_empty_page[OF this] show "\<exists>n. api n = []" by blast
next
  assume ex: "\<exists>n. api n = []"
  define m where "m = (LEAST n. api n = [])"
  have "api m = []" unfolding m_def using ex by (rule LeastI_ex)
  moreover have "\<forall>k<m. api k \<noteq> []" unfolding m_def using not_less_Least by blast
  ultimately show "get_all_lessons api \<noteq> None"
    using get_all_lessons_first_empty[of api m] by simp
qed

text \<open>
  Claim C7. The loop asks for the pages \<open>0, 1, 2, \<dots>\<close> in this order. When page \<open>n\<close> is the
  first empty page, for any \<open>n\<close>, it stops after asking for page \<open>n\<close> and has yielded exactly
  the pages before it. It returns if and only if some page is empty; when no page is empty it
  never returns.
\<close>

theorem pagination_stops_at_first_empty_page:
  "(api n = [] \<and> (\<forall>k<n. api k \<noteq> []) \<longrightarrow>
      get_all_lessons api = Some \<lparr>requested = [0..<Suc n], yielded = map api [0..<n]\<rparr>)
   \<and> (get_all_lessons api \<noteq> None) = (\<exists>k. api k = [])
   \<and> ((\<forall>k. api k \<noteq> []) \<longrightarrow> get_all_lessons api = None)"
  using get_all_lessons_first_empty[of api n] get_all_lessons_returns_iff[of api]
  by auto

theorem pagination_stops_at_first_empty_page_witness:
  "get_all_lessons
     (\<lambda>page. if page < 2
        then [\<lparr>Lesson_id = int page, Lesson_lessonable_id = 1, Lesson_title = ascii ''t'',
               Lesson_slug = ascii ''s'', Lesson_content = [], Lesson_ordinal = 0\<rparr>]
        else [])
     = Some \<lparr>requested = [0, 1, 2],
             yielded =
               [[\<lparr>Lesson_id = 0, Lesson_lessonable_id = 1, Lesson_title = ascii ''t'',
                  Lesson_slug = ascii ''s'', Lesson_content = [], Lesson_ordinal = 0\<rparr>],
                [\<lparr>Lesson_id = 1, Lesson_lessonable_id = 1, Lesson_title = ascii ''t'',
                  Lesson_slug = ascii ''s'', Lesson_content = [], Lesson_ordinal = 0\<rparr>]]\<rparr>
   \<and> get_all_lessons
       (\<lambda>page. [\<lparr>Lesson_id = int page, Lesson_lessonable_id = 1, Lesson_title = ascii ''t'',
                  Lesson_slug = ascii ''s'', Lesson_content = [], Lesson_ordinal = 0\<rparr>]) = None"
  using pagination_stops_at_first_empty_page
      [of "\<lambda>page. if page < 2
             then [\<lparr>Lesson_id = int page, Lesson_lessonable_id = 1, Lesson_title = ascii ''t'',
                    Lesson_slug = ascii ''s'', Lesson_content = [], Lesson_ordinal = 0\<rparr>]
             else []" 2]
    pagination_stops_at_first_empty_page
      [of "\<lambda>page. [\<lparr>Lesson_id = int page, Lesson_lessonable_id = 1, Lesson_title = ascii ''t'',
                      Lesson_slug = ascii ''s'', Lesson_content = [], Lesson_ordinal = 0\<rparr>]" 0]
  by (simp add: upt_conv_Cons numeral_2_eq_2 numeral_3_eq_3 del: upt_Suc)

subsection \<open>Reconciliation\<close>

text \<open>
  Both loops in closed form: the run raises as soon as one file has the slug of a remote
  lesson; otherwise every file goes to \<^verbatim>\<open>lessons_to_create\<close>, and the chapter names without a
  remote chapter of that title go to \<^verbatim>\<open>chapters_to_create\<close>.
\<close>

lemma classify_lessons_eq:
  "classify_lessons lic es r =
     (if list_all (\<lambda>(s, p). find (\<lambda>l. Lesson_slug l = s) lic = None) es
      then Inr (r\<lparr>lessons_to_create := lessons_to_create r @ map (\<lambda>(s, p). NewLesson s p) es\<rparr>)
      else Inl AttributeError)"
  by (induction es arbitrary: r) (auto split: option.splits)

lemma reconcile_chapters_eq:
  "reconcile_chapters cs lic m r =
     (if list_all (\<lambda>(s, p). find (\<lambda>l. Lesson_slug l = s) lic = None) (concat (map snd m))
      then Inr (r\<lparr>chapters_to_create := chapters_to_create r @
                      map NewChapter (filter (\<lambda>n. find (\<lambda>c. Chapter_title c = n) cs = None) (map fst m)),
                  lessons_to_create := lessons_to_create r @
                      map (\<lambda>(s, p). NewLesson s p) (concat (map snd m))\<rparr>)
      else Inl AttributeError)"
proof (induction m arbitrary: r)
  case Nil
  then show ?case by simp
next
  case (Cons a m)
  obtain n es where a: "a = (n, es)" by (cases a)
  show ?case
    unfolding a
    by (cases "find (\<lambda>c. Chapter_title c = n) cs")
       (simp_all add: classify_lessons_eq Cons.IH Let_def)
qed

text \<open>\<^verbatim>\<open>lessons_map\<close>: every file is entered once, under the name of its chapter.\<close>

lemma add_lesson_file_eq:
  "add_lesson_file ucd m f =
     AList.update (chapter_name_of ucd f)
       ((case map_of m (chapter_name_of ucd f) of None \<Rightarrow> [] | Some es \<Rightarrow> es) @ [(lesson_slug ucd f, f)]) m"
proof (cases "map_of m (chapter_name_of ucd f)")
  case None
  then show ?thesis
    by (simp add: add_lesson_file_def Let_def AList.update_conv' )
next
  case (Some es)
  then show ?thesis
    by (simp add: add_lesson_file_def Let_def AList.update_triv)
qed

lemma entries_update:
  "(\<Union>a\<in>set (AList.update k ((case map_of m k of None \<Rightarrow> [] | Some es \<Rightarrow> es) @ [x]) m). set (snd a))
     = insert x (\<Union>a\<in>set m. set (snd a))"
  by (induction m) (auto split: option.splits)

lemma entries_add_lesson_file:
  "(\<Union>a\<in>set (add_lesson_file ucd m f). set (snd a)) = insert (lesson_slug ucd f, f) (\<Union>a\<in>set m. set (snd a))"
  by (simp only: add_lesson_file_eq entries_update)

lemma entries_foldl:
  "(\<Union>a\<in>set (foldl (add_lesson_file ucd) m fs). set (snd a))
     = (\<Union>a\<in>set m. set (snd a)) \<union> (\<lambda>f. (lesson_slug ucd f, f)) ` set fs"
  by (induction fs arbitrary: m) (simp_all add: entries_add_lesson_file)

lemma entries_build_lessons_map:
  "set (concat (map snd (build_lessons_map ucd fs))) = (\<lambda>f. (lesson_slug ucd f, f)) ` set fs"
  by (simp add: build_lessons_map_def entries_foldl)

lemma keys_add_lesson_file:
  "fst ` set (add_lesson_file ucd m f) = insert (chapter_name_of ucd f) (fst ` set m)"
  by (simp only: add_lesson_file_eq AList.dom_update) simp

lemma keys_foldl:
  "fst ` set (foldl (add_lesson_file ucd) m fs) = fst ` set m \<union> chapter_name_of ucd ` set fs"
  by (induction fs arbitrary: m) (auto simp: keys_add_lesson_file)

lemma keys_build_lessons_map:
  "set (map fst (build_lessons_map ucd fs)) = chapter_name_of ucd ` set fs"
  by (simp add: build_lessons_map_def keys_foldl)

lemma distinct_foldl:
  "distinct (map fst m) \<Longrightarrow> distinct (map fst (foldl (add_lesson_file ucd) m fs))"
  by (induction fs arbitrary: m) (simp_all add: add_lesson_file_eq AList.distinct_update)

lemma distinct_build_lessons_map: "distinct (map fst (build_lessons_map ucd fs))"
  by (simp add: build_lessons_map_def distinct_foldl)

lemma reconcile_eq:
  "reconcile ucd cs fs =
     (if \<exists>f\<in>set fs. \<exists>l\<in>set (lessons_in_course_of cs). Lesson_slug l = lesson_slug ucd f
      then Inl AttributeError
      else Inr \<lparr>chapters_to_create =
                  map NewChapter (filter (\<lambda>n. find (\<lambda>c. Chapter_title c = n) cs = None)
                                    (map fst (build_lessons_map ucd fs))),
               lessons_to_create = map (\<lambda>(s, p). NewLesson s p) (concat (map snd (build_lessons_map ucd fs))),
               lessons_to_update = []\<rparr>)"
proof -
  have "list_all (\<lambda>(s, p). find (\<lambda>l. Lesson_slug l = s) (lessons_in_course_of cs) = None)
          (concat (map snd (build_lessons_map ucd fs)))
        \<longleftrightarrow> \<not> (\<exists>f\<in>set fs. \<exists>l\<in>set (lessons_in_course_of cs). Lesson_slug l = lesson_slug ucd f)"
    unfolding list_all_iff entries_build_lessons_map
    by (auto simp: find_None_iff)
  then show ?thesis
    by (simp add: reconcile_def reconcile_chapters_eq)
qed


text \<open>What a reconciliation that returns has built.\<close>

lemma reconcile_completed:
  "reconcile ucd cs fs = Inr r \<Longrightarrow>
     lessons_to_update r = []
     \<and> set (lessons_to_create r) = (\<lambda>f. NewLesson (lesson_slug ucd f) f) ` set fs
     \<and> set (chapters_to_create r) =
         NewChapter ` {n \<in> chapter_name_of ucd ` set fs. find (\<lambda>c. Chapter_title c = n) cs = None}
     \<and> distinct (chapters_to_create r)"
proof -
  assume a: "reconcile ucd cs fs = Inr r"
  have inj: "inj_on NewChapter A" for A by (simp add: inj_on_def)
  from a have r: "r = \<lparr>chapters_to_create =
                  map NewChapter (filter (\<lambda>n. find (\<lambda>c. Chapter_title c = n) cs = None)
                                    (map fst (build_lessons_map ucd fs))),
               lessons_to_create = map (\<lambda>(s, p). NewLesson s p) (concat (map snd (build_lessons_map ucd fs))),
               lessons_to_update = []\<rparr>"
    by (simp add: reconcile_eq split: if_splits)
  have 1: "lessons_to_update r = []" by (subst r) simp
  have 2: "set (lessons_to_create r) = (\<lambda>f. NewLesson (lesson_slug ucd f) f) ` set fs"
    by (subst r) (simp only: ReconciliationResult.simps set_map entries_build_lessons_map image_image prod.case)
  have 3: "set (chapters_to_create r) =
         NewChapter ` {n \<in> chapter_name_of ucd ` set fs. find (\<lambda>c. Chapter_title c = n) cs = None}"
    using keys_build_lessons_map[of ucd fs] by (subst r) auto
  have dm: "distinct (map NewChapter xs)" if "distinct xs" for xs
    using that by (simp add: distinct_map inj)
  have 4: "distinct (chapters_to_create r)"
    by (subst r)
       (simp only: ReconciliationResult.simps dm distinct_filter distinct_build_lessons_map)
  from 1 2 3 4 show ?thesis by simp
qed

lemma main_Inr:
  "main ucd args w = Some (Inr r) \<longleftrightarrow>
     (\<exists>cs. resolve_course_chapters ucd args w = Some (Inr cs) \<and> reconcile ucd cs (lesson_files args) = Inr r)"
  by (auto simp: main_def split: option.splits sum.splits)

lemma validate_error_kind:
  "validate_lesson_files ucd fs ps = Inl e \<Longrightarrow> e = FileNotFoundError \<or> e = IsADirectoryError"
  by (induction ps arbitrary: e)
     (auto simp: is_valid_file_def split: option.splits node.splits sum.splits)

lemma reconcile_error_kind: "reconcile ucd cs fs = Inl e \<Longrightarrow> e = AttributeError"
  by (simp add: reconcile_eq split: if_splits)

subsection \<open>Chapter names in the reconciliation\<close>

text \<open>
  Claim C3, as stated, fails: the ordinal pattern asks for a dot after the digits, so the
  digits of \<^verbatim>\<open>01-basics\<close> stay. The folder normalizes to \<^verbatim>\<open>01 basics\<close>, not to \<^verbatim>\<open>Basics\<close>, and
  a run on the file \<^verbatim>\<open>01-basics/a.html\<close>, against a course whose only chapter is titled
  \<^verbatim>\<open>Advanced\<close>, creates the chapter \<^verbatim>\<open>01 basics\<close>.
\<close>

theorem chapter_name_keeps_undotted_ordinal:
  "chapter_name unicode_excerpt (ascii ''01-basics'') = ascii ''01 basics''
   \<and> chapter_name unicode_excerpt (ascii ''01-basics'') \<noteq> ascii ''Basics''
   \<and> main unicode_excerpt
        \<lparr>course = ascii ''Intro'', lesson_files = [Path [] [ascii ''01-basics'', ascii ''a.html'']],
           overwrite = True, mavenseed_url = ascii ''https://school.example'', email = ascii ''me'',
           password = ascii ''pw'', list_courses = False\<rparr>
        \<lparr>files = (\<lambda>p. if p = Path [] [ascii ''01-basics'', ascii ''a.html'']
                        then Some (File (ascii ''<h1>A</h1>'')) else None),
           cache_file =
             Some (Json [(ascii ''Intro'',
                    [\<lparr>Chapter_id = 1, Chapter_course_id = 10, Chapter_title = ascii ''Advanced'',
                       Chapter_ordinal = 0, lessons = []\<rparr>])]),
           api_courses = [\<lparr>Course_id = 10, Course_title = ascii ''Intro'', Course_slug = ascii ''intro-101''\<rparr>],
           api_course_chapters = (\<lambda>i. []),
           api_lessons = (\<lambda>page. [])\<rparr>
       = Some (Inr \<lparr>chapters_to_create = [NewChapter (ascii ''01 basics'')],
                     lessons_to_create = [NewLesson (ascii ''a'') (Path [] [ascii ''01-basics'', ascii ''a.html''])],
                     lessons_to_update = []\<rparr>)"
  by code_simp

text \<open>
  Claim C3, amended. For a folder name that carries no ordinal (no digit run directly
  followed by a dot), the chapter name is the folder name with \<^verbatim>\<open>-\<close>, \<^verbatim>\<open>_\<close> and \<^verbatim>\<open>.\<close> replaced
  by spaces, its first character in title case and the others in lower case, whatever the
  database. With a database that maps ASCII as Unicode does, the folder name \<^verbatim>\<open>01-basics\<close>
  normalizes to \<^verbatim>\<open>01 basics\<close>; when a run returns its lists, a file under the folder
  \<^verbatim>\<open>01-basics\<close> and no chapter of the course titled \<^verbatim>\<open>01 basics\<close> give an entry \<^verbatim>\<open>01 basics\<close>
  in \<^verbatim>\<open>chapters_to_create\<close>, and no entry of that list is repeated.
\<close>

theorem chapter_grouping_without_ordinal:
  "(\<not> has_ordinal ucd folder \<longrightarrow> chapter_name ucd folder = capitalize ucd (sub_separators folder))
   \<and> (ascii_exact ucd \<longrightarrow> chapter_name ucd (ascii ''01-basics'') = ascii ''01 basics'')
   \<and> (ascii_exact ucd
        \<and> main ucd args w = Some (Inr r) \<and> resolve_course_chapters ucd args w = Some (Inr cs)
        \<and> f \<in> set (lesson_files args) \<and> path_name (path_parent f) = ascii ''01-basics''
        \<and> list_all (\<lambda>c. Chapter_title c \<noteq> ascii ''01 basics'') cs
      \<longrightarrow> NewChapter (ascii ''01 basics'') \<in> set (chapters_to_create r)
          \<and> distinct (chapters_to_create r))"
proof -
  have n: "chapter_name ucd (ascii ''01-basics'') = ascii ''01 basics''" if ex: "ascii_exact ucd"
  proof -
    have "list_all (\<lambda>c. c < 128) (ascii ''01-basics'')"
      by code_simp
    from chapter_name_ascii[OF ex this]
    have "chapter_name ucd (ascii ''01-basics'') = chapter_name unicode_excerpt (ascii ''01-basics'')" .
    also have "\<dots> = ascii ''01 basics''"
      by code_simp
    finally show ?thesis .
  qed
  have "NewChapter (ascii ''01 basics'') \<in> set (chapters_to_create r) \<and> distinct (chapters_to_create r)"
    if ex: "ascii_exact ucd"
      and m: "main ucd args w = Some (Inr r)" and c: "resolve_course_chapters ucd args w = Some (Inr cs)"
      and f: "f \<in> set (lesson_files args)" and p: "path_name (path_parent f) = ascii ''01-basics''"
      and no: "list_all (\<lambda>c. Chapter_title c \<noteq> ascii ''01 basics'') cs"
  proof -
    from m c have rec: "reconcile ucd cs (lesson_files args) = Inr r"
      by (auto simp: main_Inr)
    have cn: "chapter_name_of ucd f = ascii ''01 basics''"
      by (simp add: chapter_name_of_def p n[OF ex])
    have none: "find (\<lambda>c. Chapter_title c = ascii ''01 basics'') cs = None"
      using no by (auto simp: find_None_iff list_all_iff)
    from f cn none have "ascii ''01 basics'' \<in> {n \<in> chapter_name_of ucd ` set (lesson_files args).
        find (\<lambda>c. Chapter_title c = n) cs = None}"
      by force
    with reconcile_completed[OF rec] show ?thesis by blast
  qed
  with n show ?thesis
    by (simp add: chapter_name_eq)
qed

theorem chapter_grouping_without_ordinal_witness:
  "\<not> has_ordinal unicode_excerpt (ascii ''my-first_chapter'')
   \<and> chapter_name unicode_excerpt (ascii ''my-first_chapter'') = ascii ''My first chapter''
   \<and> NewChapter (ascii ''01 basics'') \<in> set (chapters_to_create
         \<lparr>chapters_to_create = [NewChapter (ascii ''01 basics'')],
            lessons_to_create = [NewLesson (ascii ''a'') (Path [] [ascii ''01-basics'', ascii ''a.html''])],
            lessons_to_update = []\<rparr>)"
proof -
  let ?args = "\<lparr>course = ascii ''Intro'', lesson_files = [Path [] [ascii ''01-basics'', ascii ''a.html'']],
           overwrite = True, mavenseed_url = ascii ''https://school.example'', email = ascii ''me'',
           password = ascii ''pw'', list_courses = False\<rparr>"
  let ?cs = "[\<lparr>Chapter_id = 1, Chapter_course_id = 10, Chapter_title = ascii ''Basics'',
                Chapter_ordinal = 0, lessons = []\<rparr>]"
  let ?w = "\<lparr>files = (\<lambda>p. if p = Path [] [ascii ''01-basics'', ascii ''a.html'']
                        then Some (File (ascii ''<h1>A</h1>'')) else None),
           cache_file = Some (Json [(ascii ''Intro'', ?cs)]),
           api_courses = [\<lparr>Course_id = 10, Course_title = ascii ''Intro'', Course_slug = ascii ''intro-101''\<rparr>],
           api_course_chapters = (\<lambda>i. []),
           api_lessons = (\<lambda>page. [])\<rparr>"
  let ?r = "\<lparr>chapters_to_create = [NewChapter (ascii ''01 basics'')],
            lessons_to_create = [NewLesson (ascii ''a'') (Path [] [ascii ''01-basics'', ascii ''a.html''])],
            lessons_to_update = []\<rparr>"
  have h: "\<not> has_ordinal unicode_excerpt (ascii ''my-first_chapter'')" by code_simp
  have c: "capitalize unicode_excerpt (sub_separators (ascii ''my-first_chapter'')) = ascii ''My first chapter''" by code_simp
  have m: "main unicode_excerpt ?args ?w = Some (Inr ?r)" by code_simp
  have rc: "resolve_course_chapters unicode_excerpt ?args ?w = Some (Inr ?cs)" by code_simp
  have f: "Path [] [ascii ''01-basics'', ascii ''a.html''] \<in> set (lesson_files ?args)" by simp
  have p: "path_name (path_parent (Path [] [ascii ''01-basics'', ascii ''a.html''])) = ascii ''01-basics''"
    by code_simp
  have no: "list_all (\<lambda>c. Chapter_title c \<noteq> ascii ''01 basics'') ?cs"
    by (simp add: ascii_def ord_of_def)
  from chapter_grouping_without_ordinal[of unicode_excerpt "ascii ''my-first_chapter''" ?args ?w ?r ?cs
      "Path [] [ascii ''01-basics'', ascii ''a.html'']"] ascii_exact_excerpt h c m rc f p no
  show ?thesis by simp
qed

subsection \<open>Course resolution\<close>

lemma find_course_Some:
  "find_course ident courses = Some c \<Longrightarrow>
     \<exists>pre post. courses = pre @ c # post
       \<and> (ident = Course_title c \<or> ident = Course_slug c)
       \<and> list_all (\<lambda>d. ident \<noteq> Course_title d \<and> ident \<noteq> Course_slug d) pre"
proof (induction courses)
  case Nil
  then show ?case by simp
next
  case (Cons d ds)
  show ?case
  proof (cases "ident = Course_title d \<or> ident = Course_slug d")
    case True
    with Cons.prems have "c = d" by auto
    with True have "d # ds = [] @ c # ds \<and> (ident = Course_title c \<or> ident = Course_slug c)
        \<and> list_all (\<lambda>d. ident \<noteq> Course_title d \<and> ident \<noteq> Course_slug d) []"
      by simp
    then show ?thesis by blast
  next
    case False
    with Cons.prems have "find_course ident ds = Some c" by simp
    from Cons.IH[OF this] obtain pre post where
      "ds = pre @ c # post" "ident = Course_title c \<or> ident = Course_slug c"
      "list_all (\<lambda>d. ident \<noteq> Course_title d \<and> ident \<noteq> Course_slug d) pre"
      by blast
    with False have "d # ds = (d # pre) @ c # post \<and> (ident = Course_title c \<or> ident = Course_slug c)
        \<and> list_all (\<lambda>d. ident \<noteq> Course_title d \<and> ident \<noteq> Course_slug d) (d # pre)"
      by simp
    then show ?thesis by blast
  qed
qed

lemma find_course_None:
  "(find_course ident courses = None)
     = list_all (\<lambda>d. ident \<noteq> Course_title d \<and> ident \<noteq> Course_slug d) courses"
  by (induction courses) auto

lemma main_after_cache:
  "mavenseed_url args \<noteq> [] \<Longrightarrow>
   validate_lesson_files ucd (files w) (lesson_files args) = Inr valid \<Longrightarrow> valid \<noteq> [] \<Longrightarrow>
   load_cache w = Some (Inr cached) \<Longrightarrow> cached \<noteq> [] \<Longrightarrow> \<not> list_courses args \<Longrightarrow>
   main ucd args w =
     (case find_course (course args) (api_courses w) of
        None \<Rightarrow> Some (Inl (SystemExit ERROR_COURSE_NOT_FOUND))
      | Some c \<Rightarrow>
          Some (case map_of cached (Course_title c) of
                  None \<Rightarrow> Inl KeyError
                | Some cs \<Rightarrow> reconcile ucd cs (lesson_files args)))"
  by (simp add: main_def resolve_course_chapters_def split: option.splits)

text \<open>
  Claim C5. The course found is the first one of the list whose title or slug equals the
  identifier: no course before it matches. Nothing is found exactly when no course matches.
  A course at the head of the list is found by its title and by its slug alike. In a run
  that has passed the validation, the cache and the listing mode, no match ends the run with
  the exit code \<open>ERROR_COURSE_NOT_FOUND\<close>, and a match sends the run on with the chapters of
  that course.
\<close>

theorem course_resolution_first_match:
  "(find_course ident courses = Some c \<longrightarrow>
      (\<exists>pre post. courses = pre @ c # post
         \<and> (ident = Course_title c \<or> ident = Course_slug c)
         \<and> list_all (\<lambda>d. ident \<noteq> Course_title d \<and> ident \<noteq> Course_slug d) pre))
   \<and> (find_course ident courses = None)
       = list_all (\<lambda>d. ident \<noteq> Course_title d \<and> ident \<noteq> Course_slug d) courses
   \<and> find_course (Course_title c0) (c0 # rest) = Some c0
   \<and> find_course (Course_slug c0) (c0 # rest) = Some c0
   \<and> (mavenseed_url args \<noteq> []
        \<and> validate_lesson_files ucd (files w) (lesson_files args) = Inr valid \<and> valid \<noteq> []
        \<and> load_cache w = Some (Inr cached) \<and> cached \<noteq> [] \<and> \<not> list_courses args
      \<longrightarrow> main ucd args w =
            (case find_course (course args) (api_courses w) of
               None \<Rightarrow> Some (Inl (SystemExit ERROR_COURSE_NOT_FOUND))
             | Some c \<Rightarrow>
                 Some (case map_of cached (Course_title c) of
                         None \<Rightarrow> Inl KeyError
                       | Some cs \<Rightarrow> reconcile ucd cs (lesson_files args))))"
  using find_course_Some[of ident courses c] find_course_None[of ident courses]
    main_after_cache[where args = args and ucd = ucd and w = w and valid = valid and cached = cached]
  by simp

theorem course_resolution_first_match_witness:
  "find_course (ascii ''Intro'') [\<lparr>Course_id = 10, Course_title = ascii ''Intro'', Course_slug = ascii ''intro-101''\<rparr>]
     = Some \<lparr>Course_id = 10, Course_title = ascii ''Intro'', Course_slug = ascii ''intro-101''\<rparr>
   \<and> find_course (ascii ''intro-101'') [\<lparr>Course_id = 10, Course_title = ascii ''Intro'', Course_slug = ascii ''intro-101''\<rparr>]
     = Some \<lparr>Course_id = 10, Course_title = ascii ''Intro'', Course_slug = ascii ''intro-101''\<rparr>
   \<and> main unicode_excerpt
        \<lparr>course = ascii ''Outro'', lesson_files = [Path [] [ascii ''basics'', ascii ''a.html'']],
           overwrite = True, mavenseed_url = ascii ''https://school.example'', email = ascii ''me'',
           password = ascii ''pw'', list_courses = False\<rparr>
        \<lparr>files = (\<lambda>p. if p = Path [] [ascii ''basics'', ascii ''a.html'']
                        then Some (File (ascii ''<h1>A</h1>'')) else None),
           cache_file = Some (Json [(ascii ''Intro'', [])]),
           api_courses = [\<lparr>Course_id = 10, Course_title = ascii ''Intro'', Course_slug = ascii ''intro-101''\<rparr>],
           api_course_chapters = (\<lambda>i. []),
           api_lessons = (\<lambda>page. [])\<rparr>
       = Some (Inl (SystemExit 2))"
proof -
  let ?c = "\<lparr>Course_id = 10, Course_title = ascii ''Intro'', Course_slug = ascii ''intro-101''\<rparr>"
  let ?args = "\<lparr>course = ascii ''Outro'', lesson_files = [Path [] [ascii ''basics'', ascii ''a.html'']],
           overwrite = True, mavenseed_url = ascii ''https://school.example'', email = ascii ''me'',
           password = ascii ''pw'', list_courses = False\<rparr>"
  let ?w = "\<lparr>files = (\<lambda>p. if p = Path [] [ascii ''basics'', ascii ''a.html'']
                        then Some (File (ascii ''<h1>A</h1>'')) else None),
           cache_file = Some (Json [(ascii ''Intro'', [])]),
           api_courses = [?c],
           api_course_chapters = (\<lambda>i. []),
           api_lessons = (\<lambda>page. [])\<rparr>"
  have v: "validate_lesson_files unicode_excerpt (files ?w) (lesson_files ?args) = Inr [Path [] [ascii ''basics'', ascii ''a.html'']]"
    by code_simp
  have l: "load_cache ?w = Some (Inr [(ascii ''Intro'', [])])"
    by (simp add: load_cache_def)
  from course_resolution_first_match
      [where ?c0.0 = ?c and rest = "[]" and args = ?args and w = ?w and ucd = unicode_excerpt
         and valid = "[Path [] [ascii ''basics'', ascii ''a.html'']]" and cached = "[(ascii ''Intro'', [])]"
         and ident = "(ascii ''Intro'')" and courses = "[?c]" and c = ?c] v l
  show ?thesis
    by (simp add: ERROR_COURSE_NOT_FOUND_def ascii_def ord_of_def)
qed

subsection \<open>Exit codes\<close>

text \<open>
  The exit codes of the runs that reach the three tests: a validation that returns no file,
  a cache that is an empty JSON object, an identifier that no course matches. The three
  codes differ, and a run that ends with one of them met the condition of that code.
\<close>

lemma main_exit_no_valid_files:
  "mavenseed_url args \<noteq> [] \<Longrightarrow> validate_lesson_files ucd (files w) (lesson_files args) = Inr [] \<Longrightarrow>
   main ucd args w = Some (Inl (SystemExit ERROR_NO_VALID_LESSON_FILES))"
  by (simp add: main_def resolve_course_chapters_def)

lemma main_exit_cache_empty:
  "mavenseed_url args \<noteq> [] \<Longrightarrow>
   validate_lesson_files ucd (files w) (lesson_files args) = Inr valid \<Longrightarrow> valid \<noteq> [] \<Longrightarrow>
   cache_file w = Some (Json []) \<Longrightarrow>
   main ucd args w = Some (Inl (SystemExit ERROR_CACHE_FILE_EMPTY))"
  by (simp add: main_def resolve_course_chapters_def load_cache_def)

lemma main_exit_course_not_found:
  "mavenseed_url args \<noteq> [] \<Longrightarrow>
   validate_lesson_files ucd (files w) (lesson_files args) = Inr valid \<Longrightarrow> valid \<noteq> [] \<Longrightarrow>
   load_cache w = Some (Inr cached) \<Longrightarrow> cached \<noteq> [] \<Longrightarrow> \<not> list_courses args \<Longrightarrow>
   find_course (course args) (api_courses w) = None \<Longrightarrow>
   main ucd args w = Some (Inl (SystemExit ERROR_COURSE_NOT_FOUND))"
  by (simp add: main_after_cache)

lemma exit_codes_distinct:
  "distinct [0, ERROR_NO_VALID_LESSON_FILES, ERROR_COURSE_NOT_FOUND, ERROR_CACHE_FILE_EMPTY]"
  by (simp add: ERROR_NO_VALID_LESSON_FILES_def ERROR_COURSE_NOT_FOUND_def
      ERROR_CACHE_FILE_EMPTY_def)

lemma load_cache_error_kind: "load_cache w = Some (Inl e) \<Longrightarrow> e = JSONDecodeError"
  by (auto simp: load_cache_def split: option.splits cache_text.splits)

lemma main_exit_cause:
  assumes "main ucd args w = Some (Inl (SystemExit n))"
  shows "(n = ERROR_NO_VALID_LESSON_FILES
            \<and> validate_lesson_files ucd (files w) (lesson_files args) = Inr [])
         \<or> (n = ERROR_CACHE_FILE_EMPTY \<and> load_cache w = Some (Inr []))
         \<or> (n = 0 \<and> list_courses args)
         \<or> (n = ERROR_COURSE_NOT_FOUND \<and> find_course (course args) (api_courses w) = None)"
proof -
  have "e \<noteq> SystemExit n" if "validate_lesson_files ucd (files w) (lesson_files args) = Inl e" for e
    using validate_error_kind[OF that] by auto
  moreover have "e \<noteq> SystemExit n" if "reconcile ucd cs (lesson_files args) = Inl e" for e cs
    using reconcile_error_kind[OF that] by auto
  moreover have "e \<noteq> SystemExit n" if "load_cache w = Some (Inl e)" for e
    using load_cache_error_kind[OF that] by auto
  ultimately show ?thesis
    using assms
    by (auto simp: main_def resolve_course_chapters_def
        split: if_splits sum.splits option.splits)
qed

text \<open>
  Claim C6. The claim says that each of the three conditions (no valid lesson file, course
  not found, cache file present but empty) ends the run with its own exit code. Two runs
  in which a condition holds end with an exception instead. With the single candidate
  \<^verbatim>\<open>lessons/missing.html\<close>, which does not exist, there is no valid lesson file, and the
  validation raises \<^verbatim>\<open>FileNotFoundError\<close> before the count of the valid files is read. With
  a cache file of zero bytes, \<^verbatim>\<open>json.load\<close> raises before the test for an empty cache.
\<close>

theorem fatal_conditions_raise_instead_of_exit:
  "main unicode_excerpt
     \<lparr>course = ascii ''Intro'', lesson_files = [Path [] [ascii ''lessons'', ascii ''missing.html'']],
        overwrite = True, mavenseed_url = ascii ''https://school.example'', email = ascii ''me'',
        password = ascii ''pw'', list_courses = False\<rparr>
     \<lparr>files = (\<lambda>p. None),
        cache_file = Some (Json [(ascii ''Intro'', [])]),
        api_courses = [\<lparr>Course_id = 10, Course_title = ascii ''Intro'', Course_slug = ascii ''intro-101''\<rparr>],
        api_course_chapters = (\<lambda>i. []),
        api_lessons = (\<lambda>page. [])\<rparr>
     = Some (Inl FileNotFoundError)
   \<and> main unicode_excerpt
     \<lparr>course = ascii ''Intro'', lesson_files = [Path [] [ascii ''basics'', ascii ''a.html'']],
        overwrite = True, mavenseed_url = ascii ''https://school.example'', email = ascii ''me'',
        password = ascii ''pw'', list_courses = False\<rparr>
     \<lparr>files = (\<lambda>p. if p = Path [] [ascii ''basics'', ascii ''a.html'']
                     then Some (File (ascii ''<h1>A</h1>'')) else None),
        cache_file = Some NotJson,
        api_courses = [\<lparr>Course_id = 10, Course_title = ascii ''Intro'', Course_slug = ascii ''intro-101''\<rparr>],
        api_course_chapters = (\<lambda>i. []),
        api_lessons = (\<lambda>page. [])\<rparr>
     = Some (Inl JSONDecodeError)"
  by code_simp

subsection \<open>Classification of the lesson files\<close>

text \<open>
  A run that returns its lists has put every file of \<^verbatim>\<open>args.lesson_files\<close>, valid or not, in
  \<^verbatim>\<open>lessons_to_create\<close> and nothing in \<^verbatim>\<open>lessons_to_update\<close>; the reconciliation raises exactly
  when some file of the list has the slug of a remote lesson of the course.
\<close>

lemma main_completed:
  "main ucd args w = Some (Inr r) \<Longrightarrow>
     lessons_to_update r = []
     \<and> set (lessons_to_create r) = (\<lambda>f. NewLesson (lesson_slug ucd f) f) ` set (lesson_files args)"
  using reconcile_completed by (auto simp: main_Inr)

lemma reconcile_raises_iff:
  "reconcile ucd cs fs = Inl AttributeError
     \<longleftrightarrow> (\<exists>f\<in>set fs. \<exists>l\<in>set (lessons_in_course_of cs). Lesson_slug l = lesson_slug ucd f)"
  by (simp add: reconcile_eq)

text \<open>
  Claim C2. The claim says that a valid file whose slug is the slug of a remote lesson is
  entered in \<^verbatim>\<open>lessons_to_update\<close> with the id of that lesson. On the file
  \<^verbatim>\<open>basics/intro-to-x.html\<close> and a course with the remote lesson \<^verbatim>\<open>intro-to-x\<close> (id 7), the run
  ends with \<^verbatim>\<open>AttributeError\<close>: \<^verbatim>\<open>lesson.get("id")\<close> is evaluated on a \<^verbatim>\<open>Lesson\<close> dataclass
  instance.
\<close>

theorem matching_slug_raises_attribute_error:
  "main unicode_excerpt
     \<lparr>course = ascii ''Intro'', lesson_files = [Path [] [ascii ''basics'', ascii ''intro-to-x.html'']],
        overwrite = True, mavenseed_url = ascii ''https://school.example'', email = ascii ''me'',
        password = ascii ''pw'', list_courses = False\<rparr>
     \<lparr>files = (\<lambda>p. if p = Path [] [ascii ''basics'', ascii ''intro-to-x.html'']
                     then Some (File (ascii ''<h1>Intro to X</h1>'')) else None),
        cache_file =
          Some (Json [(ascii ''Intro'',
                 [\<lparr>Chapter_id = 1, Chapter_course_id = 10, Chapter_title = ascii ''Basics'',
                    Chapter_ordinal = 0,
                    lessons =
                      [\<lparr>Lesson_id = 7, Lesson_lessonable_id = 1, Lesson_title = ascii ''Intro to X'',
                         Lesson_slug = ascii ''intro-to-x'', Lesson_content = [],
                         Lesson_ordinal = 0\<rparr>]\<rparr>])]),
        api_courses = [\<lparr>Course_id = 10, Course_title = ascii ''Intro'', Course_slug = ascii ''intro-101''\<rparr>],
        api_course_chapters = (\<lambda>i. []),
        api_lessons = (\<lambda>page. [])\<rparr>
     = Some (Inl AttributeError)"
  by code_simp

text \<open>
  Claim C1. The claim says that every validated file is in exactly one of
  \<^verbatim>\<open>lessons_to_create\<close> and \<^verbatim>\<open>lessons_to_update\<close>. The two files \<^verbatim>\<open>basics/new-lesson.html\<close> and
  \<^verbatim>\<open>basics/intro-to-x.html\<close> both pass the validation; against a course with the remote
  lesson \<^verbatim>\<open>intro-to-x\<close> the reconciliation raises \<^verbatim>\<open>AttributeError\<close>, so neither file is in
  either list.
\<close>

theorem validated_file_in_neither_list:
  "validate_lesson_files unicode_excerpt
     (\<lambda>p. if p = Path [] [ascii ''basics'', ascii ''new-lesson.html''] then Some (File (ascii ''<h1>New</h1>''))
          else if p = Path [] [ascii ''basics'', ascii ''intro-to-x.html''] then Some (File (ascii ''<h1>Intro to X</h1>''))
          else None)
     [Path [] [ascii ''basics'', ascii ''new-lesson.html''], Path [] [ascii ''basics'', ascii ''intro-to-x.html'']]
     = Inr [Path [] [ascii ''basics'', ascii ''new-lesson.html''], Path [] [ascii ''basics'', ascii ''intro-to-x.html'']]
   \<and> reconcile unicode_excerpt
       [\<lparr>Chapter_id = 1, Chapter_course_id = 10, Chapter_title = ascii ''Basics'',
          Chapter_ordinal = 0,
          lessons =
            [\<lparr>Lesson_id = 7, Lesson_lessonable_id = 1, Lesson_title = ascii ''Intro to X'',
               Lesson_slug = ascii ''intro-to-x'', Lesson_content = [], Lesson_ordinal = 0\<rparr>]\<rparr>]
       [Path [] [ascii ''basics'', ascii ''new-lesson.html''], Path [] [ascii ''basics'', ascii ''intro-to-x.html'']]
     = Inl AttributeError"
  by code_simp

text \<open>
  Claim C10. The claim says that the reconciliation works on the whole list of the command
  line, and that every file of it is classified once the run reaches the reconciliation. The
  file \<^verbatim>\<open>basics/intro-to-x.txt\<close> fails the validation and \<^verbatim>\<open>basics/a.html\<close> passes it; the run
  reaches the reconciliation with the chapters of the course, the slug of the invalid file is
  looked up there, it is the slug of a remote lesson, and the run ends with
  \<^verbatim>\<open>AttributeError\<close> without classifying the files.
\<close>

theorem invalid_file_reaches_reconciliation_and_raises:
  "validate_lesson_files unicode_excerpt
     (\<lambda>p. if p = Path [] [ascii ''basics'', ascii ''a.html''] then Some (File (ascii ''<h1>A</h1>''))
          else if p = Path [] [ascii ''basics'', ascii ''intro-to-x.txt''] then Some (File (ascii ''plain notes''))
          else None)
     [Path [] [ascii ''basics'', ascii ''a.html''], Path [] [ascii ''basics'', ascii ''intro-to-x.txt'']]
     = Inr [Path [] [ascii ''basics'', ascii ''a.html'']]
   \<and> resolve_course_chapters unicode_excerpt
     \<lparr>course = ascii ''intro-101'',
        lesson_files = [Path [] [ascii ''basics'', ascii ''a.html''], Path [] [ascii ''basics'', ascii ''intro-to-x.txt'']],
        overwrite = True, mavenseed_url = ascii ''https://school.example'', email = ascii ''me'',
        password = ascii ''pw'', list_courses = False\<rparr>
     \<lparr>files = (\<lambda>p. if p = Path [] [ascii ''basics'', ascii ''a.html''] then Some (File (ascii ''<h1>A</h1>''))
                     else if p = Path [] [ascii ''basics'', ascii ''intro-to-x.txt''] then Some (File (ascii ''plain notes''))
                     else None),
        cache_file =
          Some (Json [(ascii ''Intro'',
                 [\<lparr>Chapter_id = 1, Chapter_course_id = 10, Chapter_title = ascii ''Basics'',
                    Chapter_ordinal = 0,
                    lessons =
                      [\<lparr>Lesson_id = 7, Lesson_lessonable_id = 1, Lesson_title = ascii ''Intro to X'',
                         Lesson_slug = ascii ''intro-to-x'', Lesson_content = [],
                         Lesson_ordinal = 0\<rparr>]\<rparr>])]),
        api_courses = [\<lparr>Course_id = 10, Course_title = ascii ''Intro'', Course_slug = ascii ''intro-101''\<rparr>],
        api_course_chapters = (\<lambda>i. []),
        api_lessons = (\<lambda>page. [])\<rparr>
     = Some (Inr [\<lparr>Chapter_id = 1, Chapter_course_id = 10, Chapter_title = ascii ''Basics'',
                    Chapter_ordinal = 0,
                    lessons =
                      [\<lparr>Lesson_id = 7, Lesson_lessonable_id = 1, Lesson_title = ascii ''Intro to X'',
                         Lesson_slug = ascii ''intro-to-x'', Lesson_content = [],
                         Lesson_ordinal = 0\<rparr>]\<rparr>])
   \<and> main unicode_excerpt
     \<lparr>course = ascii ''intro-101'',
        lesson_files = [Path [] [ascii ''basics'', ascii ''a.html''], Path [] [ascii ''basics'', ascii ''intro-to-x.txt'']],
        overwrite = True, mavenseed_url = ascii ''https://school.example'', email = ascii ''me'',
        password = ascii ''pw'', list_courses = False\<rparr>
     \<lparr>files = (\<lambda>p. if p = Path [] [ascii ''basics'', ascii ''a.html''] then Some (File (ascii ''<h1>A</h1>''))
                     else if p = Path [] [ascii ''basics'', ascii ''intro-to-x.txt''] then Some (File (ascii ''plain notes''))
                     else None),
        cache_file =
          Some (Json [(ascii ''Intro'',
                 [\<lparr>Chapter_id = 1, Chapter_course_id = 10, Chapter_title = ascii ''Basics'',
                    Chapter_ordinal = 0,
                    lessons =
                      [\<lparr>Lesson_id = 7, Lesson_lessonable_id = 1, Lesson_title = ascii ''Intro to X'',
                         Lesson_slug = ascii ''intro-to-x'', Lesson_content = [],
                         Lesson_ordinal = 0\<rparr>]\<rparr>])]),
        api_courses = [\<lparr>Course_id = 10, Course_title = ascii ''Intro'', Course_slug = ascii ''intro-101''\<rparr>],
        api_course_chapters = (\<lambda>i. []),
        api_lessons = (\<lambda>page. [])\<rparr>
     = Some (Inl AttributeError)"
  by code_simp

end
